theory Spec2Isabelle
  imports Complex_Main
begin

section \<open>The OCP-TAP TimeCard platform description\<close>

text \<open>
  A shallow embedding of \<^verbatim>\<open>litex_boards/platforms/ocp_tap_timecard.py\<close>: the pin table
  \<^verbatim>\<open>_io\<close>, the class \<^verbatim>\<open>Platform\<close> with its two class attributes, its constructor, the
  programmer factory \<^verbatim>\<open>create_programmer\<close> and the hook \<^verbatim>\<open>do_finalize\<close>.

  The module builds on the LiteX build framework (\<^verbatim>\<open>litex.build.generic_platform\<close>,
  \<^verbatim>\<open>litex.build.xilinx\<close>, \<^verbatim>\<open>litex.build.openocd\<close>), which is a library outside
  this module. Its constructors are data (a \<^theory_text>\<open>datatype\<close>). Its operations that the
  module calls are arguments of the model, so that a theorem about the module holds for
  whatever the framework does; where a property needs the effect of such an operation, the
  operation is a definition marked as modelled from the specification.
\<close>

subsection \<open>Pin constraints\<close>

text \<open>
  The constraint constructors of the framework, as the table applies them:
  \<^verbatim>\<open>Pins("F6")\<close>, \<^verbatim>\<open>IOStandard("LVCMOS33")\<close>, \<^verbatim>\<open>Misc("PULLUP=TRUE")\<close> and
  \<^verbatim>\<open>Subsignal("p", Pins("F6"), IOStandard("DIFF_SSTL15"))\<close>. A \<^verbatim>\<open>Pins\<close> takes its pin
  identifiers in one string, separated by blanks.
\<close>

datatype constr =
    Pins string
  | IOStandard string
  | Misc string
  | Subsignal string "constr list"

text \<open>One entry of the table: \<^verbatim>\<open>(name, index, constraint, ...)\<close>.\<close>

type_synonym resource = "string \<times> nat \<times> constr list"

definition res_name :: "resource \<Rightarrow> string" where
  "res_name r = fst r"

definition res_index :: "resource \<Rightarrow> nat" where
  "res_index r = fst (snd r)"

definition res_constrs :: "resource \<Rightarrow> constr list" where
  "res_constrs r = snd (snd r)"

text \<open>The key under which an entry is requested: its name and its index.\<close>

definition res_key :: "resource \<Rightarrow> string \<times> nat" where
  "res_key r = (res_name r, res_index r)"

text \<open>
  The pin identifiers of a \<^verbatim>\<open>Pins\<close> string are its blank-separated words, as Python's
  \<^verbatim>\<open>str.split()\<close> gives them: \<open>split_acc w s\<close> reads \<open>s\<close> with the word \<open>w\<close> under way.
\<close>

definition is_blank :: "char \<Rightarrow> bool" where
  "is_blank c = (c = CHR '' '' \<or> c = CHR 0x09 \<or> c = CHR 0x0A \<or> c = CHR 0x0B
                 \<or> c = CHR 0x0C \<or> c = CHR 0x0D)"

fun split_acc :: "string \<Rightarrow> string \<Rightarrow> string list" where
  "split_acc w [] = (if w = [] then [] else [w])"
| "split_acc w (c # cs) =
     (if is_blank c then (if w = [] then [] else [w]) @ split_acc [] cs
      else split_acc (w @ [c]) cs)"

definition split :: "string \<Rightarrow> string list" where
  "split s = split_acc [] s"

text \<open>The physical pins a constraint binds, those of its sub-signals included.\<close>

fun constr_pins :: "constr \<Rightarrow> string list" where
  "constr_pins (Pins s) = split s"
| "constr_pins (IOStandard s) = []"
| "constr_pins (Misc s) = []"
| "constr_pins (Subsignal n cs) = concat (map constr_pins cs)"

definition res_pins :: "resource \<Rightarrow> string list" where
  "res_pins r = concat (map constr_pins (res_constrs r))"

subsection \<open>The pin table\<close>

text \<open>The module-level list \<^verbatim>\<open>_io\<close>, entry by entry in the order of the source.\<close>

definition io_table :: "resource list" where
  "io_table = [
    \<comment> \<open>Clk / Rst.\<close>
    (''clk125'', 0, [
        Subsignal ''p'' [Pins ''F6'', IOStandard ''DIFF_SSTL15''],
        Subsignal ''n'' [Pins ''E6'', IOStandard ''DIFF_SSTL15'']]),
    (''clk200'', 0, [
        Subsignal ''p'' [Pins ''R4'', IOStandard ''DIFF_SSTL15''],
        Subsignal ''n'' [Pins ''T4'', IOStandard ''DIFF_SSTL15'']]),
    (''rst_n'', 0, [Pins ''T6'', IOStandard ''LVCMOS15'']),

    \<comment> \<open>Leds.\<close>
    (''user_led'', 0, [Pins ''B13'', IOStandard ''LVCMOS33'']),
    (''user_led'', 1, [Pins ''C13'', IOStandard ''LVCMOS33'']),
    (''user_led'', 2, [Pins ''D14'', IOStandard ''LVCMOS33'']),
    (''user_led'', 3, [Pins ''D15'', IOStandard ''LVCMOS33'']),

    \<comment> \<open>Buttons.\<close>
    (''user_btn'', 0, [Pins ''J21'', IOStandard ''LVCMOS33'']),
    (''user_btn'', 1, [Pins ''E13'', IOStandard ''LVCMOS33'']),

    \<comment> \<open>SPIFlash.\<close>
    (''flash_cs_n'', 0, [Pins ''T19'', IOStandard ''LVCMOS33'']),
    (''flash'', 0, [
        Subsignal ''mosi'' [Pins ''P22''],
        Subsignal ''miso'' [Pins ''R22''],
        Subsignal ''wp'' [Pins ''P21''],
        Subsignal ''hold'' [Pins ''R21''],
        IOStandard ''LVCMOS33'']),

    \<comment> \<open>PCIe.\<close>
    (''pcie_x1'', 0, [
        Subsignal ''rst_n'' [Pins ''J20'', IOStandard ''LVCMOS33'', Misc ''PULLUP=TRUE''],
        Subsignal ''clk_p'' [Pins ''F10''],
        Subsignal ''clk_n'' [Pins ''E10''],
        Subsignal ''rx_p'' [Pins ''D11''],
        Subsignal ''rx_n'' [Pins ''C11''],
        Subsignal ''tx_p'' [Pins ''D5''],
        Subsignal ''tx_n'' [Pins ''C5'']]),

    \<comment> \<open>Leds.\<close>
    (''led'', 0, [Pins ''E21'', IOStandard ''LVCMOS33'']),
    (''led'', 1, [Pins ''D21'', IOStandard ''LVCMOS33'']),
    (''led'', 2, [Pins ''E22'', IOStandard ''LVCMOS33'']),
    (''led'', 3, [Pins ''D22'', IOStandard ''LVCMOS33'']),

    \<comment> \<open>I2C.\<close>
    (''i2c'', 0, [
        Subsignal ''scl'' [Pins ''N17'', Misc ''PULLUP=True''],
        Subsignal ''sda'' [Pins ''T16'', Misc ''PULLUP=True''],
        IOStandard ''LVCMOS33'']),

    \<comment> \<open>PMOD.\<close>
    (''pmod'', 0, [Pins ''M22 N22 H18 H17 H22 J22 K21 K22'', IOStandard ''LVCMOS33'']),

    \<comment> \<open>GPS.\<close>
    (''gps'', 0, [
        Subsignal ''rst_n'' [Pins ''Y16''],
        Subsignal ''tx'' [Pins ''P20''],
        Subsignal ''rx'' [Pins ''N15''],
        Subsignal ''tp'' [Pins ''W14 Y14''],
        IOStandard ''LVCMOS33'']),
    (''gps'', 1, [
        Subsignal ''rst_n'' [Pins ''G15''],
        Subsignal ''tx'' [Pins ''M17''],
        Subsignal ''rx'' [Pins ''J16''],
        Subsignal ''tp'' [Pins ''G17 G18''],
        IOStandard ''LVCMOS33'']),

    \<comment> \<open>SMAs.\<close>
    (''sma'', 0, [
        Subsignal ''in'' [Pins ''Y11'', IOStandard ''LVCMOS33'', Misc ''PULLDOWN=TRUE''],
        Subsignal ''in_en'' [Pins ''H15'', IOStandard ''LVCMOS33''],
        Subsignal ''out'' [Pins ''W11'', IOStandard ''LVCMOS33'', Misc ''DRIVE=16''],
        Subsignal ''out_en'' [Pins ''J15'', IOStandard ''LVCMOS33'']]),
    (''sma'', 1, [
        Subsignal ''in'' [Pins ''Y12'', IOStandard ''LVCMOS33'', Misc ''PULLDOWN=TRUE''],
        Subsignal ''in_en'' [Pins ''J14'', IOStandard ''LVCMOS33''],
        Subsignal ''out'' [Pins ''W12'', IOStandard ''LVCMOS33'', Misc ''DRIVE=16''],
        Subsignal ''out_en'' [Pins ''H14'', IOStandard ''LVCMOS33'']]),
    (''sma'', 2, [
        Subsignal ''in'' [Pins ''AA21'', IOStandard ''LVCMOS33'', Misc ''PULLDOWN=TRUE''],
        Subsignal ''in_en'' [Pins ''K14'', IOStandard ''LVCMOS33''],
        Subsignal ''out'' [Pins ''V10'', IOStandard ''LVCMOS33'', Misc ''DRIVE=16''],
        Subsignal ''out_en'' [Pins ''K13'', IOStandard ''LVCMOS33'']]),
    (''sma'', 2, [
        Subsignal ''in'' [Pins ''AA20'', IOStandard ''LVCMOS33'', Misc ''PULLDOWN=TRUE''],
        Subsignal ''in_en'' [Pins ''L13'', IOStandard ''LVCMOS33''],
        Subsignal ''out'' [Pins ''W10'', IOStandard ''LVCMOS33'', Misc ''DRIVE=16''],
        Subsignal ''out_en'' [Pins ''M13'', IOStandard ''LVCMOS33'']])
  ]"

subsection \<open>Outcomes\<close>

text \<open>
  A call either raises or returns. The module raises no exception of its own and defines
  none; the two error kinds that the specification names are declared here so that what it
  says about them can be stated. A returned Python \<^verbatim>\<open>None\<close> is the value \<open>None\<close> of an
  option type, never an error.
\<close>

datatype error = UnsupportedProgrammer | MissingClockConstraint

subsection \<open>The platform object\<close>

text \<open>
  The toolchain object of a platform carries the two command lists that the constructor
  assigns; whatever else the framework keeps in it is the record's extension.
\<close>

record toolchain =
  bitstream_commands :: "string list"
  additional_commands :: "string list"

record 'z platform =
  device :: string
  io :: "resource list"
  toolchain :: "'z toolchain_scheme"

text \<open>
  Modelled from the spec: the constructor of the base platform
  (\<^verbatim>\<open>Xilinx7SeriesPlatform.__init__(self, device, io, toolchain=...)\<close>), which belongs to
  the framework. It holds the device identifier and the pin table it is given, and the
  toolchain object that the framework makes for the toolchain name. That object is the
  argument \<open>new_toolchain\<close>; the framework may refuse a name, which is \<open>Inl\<close>.
\<close>

definition Xilinx7SeriesPlatform_init ::
  "(string \<Rightarrow> 'e + 'z toolchain_scheme) \<Rightarrow> string \<Rightarrow> resource list \<Rightarrow> string
     \<Rightarrow> 'e + 'z platform" where
  "Xilinx7SeriesPlatform_init new_toolchain device_arg io_arg toolchain_name =
     (case new_toolchain toolchain_name of
        Inl e \<Rightarrow> Inl e
      | Inr tc \<Rightarrow> Inr \<lparr>device = device_arg, io = io_arg, toolchain = tc\<rparr>)"

text \<open>
  Modelled from the spec: a framework that accepts any toolchain name without validation,
  with a toolchain object that starts without commands. It is the framework at which the
  theorems below are instantiated.
\<close>

definition plain_toolchain :: "string \<Rightarrow> error + toolchain" where
  "plain_toolchain toolchain_name =
     Inr \<lparr>bitstream_commands = [], additional_commands = []\<rparr>"

text \<open>The class attributes \<^verbatim>\<open>default_clk_name\<close> and \<^verbatim>\<open>default_clk_period\<close>.
  The period is the float quotient \<^verbatim>\<open>1e9/200e6\<close>: both operands and the quotient 5 are
  integers that a binary64 float holds exactly, so the float division is the exact one.\<close>

definition default_clk_name :: string where
  "default_clk_name = ''clk200''"

definition default_clk_period :: real where
  "default_clk_period = 1000000000 / 200000000"

text \<open>Reading either attribute on an instance gives the attribute of the class, since the
  constructor assigns no attribute of that name to the instance.\<close>

definition self_default_clk_name :: "'z platform \<Rightarrow> string" where
  "self_default_clk_name self = default_clk_name"

definition self_default_clk_period :: "'z platform \<Rightarrow> real" where
  "self_default_clk_period self = default_clk_period"

text \<open>
  \<^verbatim>\<open>Platform.__init__(self, toolchain="vivado")\<close>. An omitted argument is \<open>None\<close> and
  takes the default. The base constructor runs first; the two assignments to
  \<^verbatim>\<open>self.toolchain.bitstream_commands\<close> and \<^verbatim>\<open>self.toolchain.additional_commands\<close>
  follow. An exception of the base constructor leaves the constructor at once.
\<close>

definition Platform_init ::
  "(string \<Rightarrow> 'e + 'z toolchain_scheme) \<Rightarrow> string option \<Rightarrow> 'e + 'z platform" where
  \<open>Platform_init new_toolchain toolchain_arg =
     (let toolchain_name = (case toolchain_arg of None \<Rightarrow> ''vivado'' | Some t \<Rightarrow> t) in
      case Xilinx7SeriesPlatform_init new_toolchain ''xc7a100t-fgg484-2'' io_table
             toolchain_name of
        Inl e \<Rightarrow> Inl e
      | Inr self0 \<Rightarrow>
          let self1 = self0\<lparr>toolchain := (toolchain self0)\<lparr>bitstream_commands := [
                ''set_property BITSTREAM.CONFIG.SPI_BUSWIDTH 4 [current_design]'',
                ''set_property BITSTREAM.CONFIG.CONFIGRATE 16 [current_design]'',
                ''set_property BITSTREAM.GENERAL.COMPRESS TRUE [current_design]'',
                ''set_property CFGBVS VCCO [current_design]'',
                ''set_property CONFIG_VOLTAGE 3.3 [current_design]'']\<rparr>\<rparr>;
              self2 = self1\<lparr>toolchain := (toolchain self1)\<lparr>additional_commands := [
                ''write_cfgmem -force -format bin -interface spix4 -size 16 -loadbit "up 0x0 {build_name}.bit" -file {build_name}.bin'',
                ''set_property BITSTREAM.CONFIG.TIMER_CFG 0x0001fbd0 [current_design]'',
                ''set_property BITSTREAM.CONFIG.CONFIGFALLBACK Enable [current_design]'',
                ''write_bitstream -force {build_name}_operational.bit '',
                ''write_cfgmem -force -format bin -interface spix4 -size 16 -loadbit "up 0x0 {build_name}_operational.bit" -file {build_name}_operational.bin'',
                ''set_property BITSTREAM.CONFIG.NEXT_CONFIG_ADDR 0x00400000 [current_design]'',
                ''write_bitstream -force {build_name}_fallback.bit '',
                ''write_cfgmem -force -format bin -interface spix4 -size 16 -loadbit "up 0x0 {build_name}_fallback.bit" -file {build_name}_fallback.bin'']\<rparr>\<rparr>
          in Inr self2)\<close>

subsection \<open>Programmers\<close>

text \<open>The two programmer classes of the framework, with the arguments the module gives
  them: \<^verbatim>\<open>OpenOCD(config, flash_proxy_basename)\<close> and
  \<^verbatim>\<open>VivadoProgrammer(flash_part=...)\<close>.\<close>

datatype programmer =
    OpenOCD string string
  | VivadoProgrammer string

text \<open>
  \<^verbatim>\<open>Platform.create_programmer(self, name='openocd')\<close>. An omitted name is \<open>None\<close> and
  takes the default. The chain \<^verbatim>\<open>if ... elif ...\<close> has no \<^verbatim>\<open>else\<close>: for any other name
  the method runs to its end and returns \<^verbatim>\<open>None\<close>.
\<close>

definition create_programmer :: "string option \<Rightarrow> error + programmer option" where
  "create_programmer name_arg =
     (let name = (case name_arg of None \<Rightarrow> ''openocd'' | Some n \<Rightarrow> n) in
      if name = ''openocd'' then
        Inr (Some (OpenOCD ''openocd_xc7_ft232.cfg'' ''bscan_spi_xc7a200t.bit''))
      else if name = ''vivado'' then
        Inr (Some (VivadoProgrammer ''s25fl256sxxxxxx0-spi-x1_x2_x4''))
      else Inr None)"

subsection \<open>Finalisation\<close>

text \<open>
  \<^verbatim>\<open>Platform.do_finalize(self, fragment)\<close> makes three calls into the framework, in this
  order: the base class's \<^verbatim>\<open>do_finalize\<close>, then \<^verbatim>\<open>lookup_request("clk200", loose=True)\<close>,
  then \<^verbatim>\<open>add_period_constraint\<close> with what the lookup returned and the period
  \<^verbatim>\<open>1e9/200e6\<close>. The three framework methods are arguments; each may raise (\<open>Inl\<close>), and an
  exception leaves \<^verbatim>\<open>do_finalize\<close> at once. The lookup reads the platform and returns a
  value of the framework (type \<open>'v\<close>), which the model passes on as it is.
\<close>

definition do_finalize ::
  "('s \<Rightarrow> 'f \<Rightarrow> 'e + 's) \<Rightarrow> ('s \<Rightarrow> string \<Rightarrow> bool \<Rightarrow> 'e + 'v) \<Rightarrow> ('s \<Rightarrow> 'v \<Rightarrow> real \<Rightarrow> 'e + 's)
     \<Rightarrow> 's \<Rightarrow> 'f \<Rightarrow> 'e + 's" where
  "do_finalize base_do_finalize lookup_request add_period_constraint_m self fragment =
     (case base_do_finalize self fragment of
        Inl e \<Rightarrow> Inl e
      | Inr self1 \<Rightarrow>
          (case lookup_request self1 ''clk200'' True of
             Inl e \<Rightarrow> Inl e
           | Inr clk \<Rightarrow> add_period_constraint_m self1 clk (1000000000 / 200000000)))"

text \<open>
  The timing constraints of a platform: the period bounds put on its clocks, in the order
  they were added. Whatever else the platform holds is the record's extension.
\<close>

record 'c timing =
  period_constraints :: "('c \<times> real) list"

text \<open>
  Modelled from the spec: the clock-constraint operation of the base platform
  (\<^verbatim>\<open>add_period_constraint(clk, period)\<close>), which belongs to the framework. It appends one
  timing constraint requiring that the period of the clock \<open>clk\<close> not exceed \<open>period\<close>
  nanoseconds.
\<close>

definition add_period_constraint ::
  "('c, 'z) timing_scheme \<Rightarrow> 'c \<Rightarrow> real \<Rightarrow> 'e + ('c, 'z) timing_scheme" where
  "add_period_constraint self clk period =
     Inr (self\<lparr>period_constraints := period_constraints self @ [(clk, period)]\<rparr>)"

text \<open>A base finalisation that changes nothing and a lookup that finds the clock under the
  name \<^verbatim>\<open>clk200\<close> only: the instance at which the theorem on finalisation is applied.\<close>

definition sample_base_do_finalize :: "string timing \<Rightarrow> unit \<Rightarrow> error + string timing" where
  "sample_base_do_finalize self fragment = Inr self"

definition sample_lookup_request :: "string timing \<Rightarrow> string \<Rightarrow> bool \<Rightarrow> error + string" where
  "sample_lookup_request self name loose =
     (if name = ''clk200'' then Inr ''clk200_p'' else Inl MissingClockConstraint)"

section \<open>Properties\<close>

subsection \<open>Construction\<close>

text \<open>The constructor returns a platform exactly when the framework makes a toolchain object
  for the name, and raises what the framework raises otherwise.\<close>

lemma Platform_init_succeeds:
  assumes "new_toolchain (case toolchain_arg of None \<Rightarrow> ''vivado'' | Some t \<Rightarrow> t) = Inr tc"
  shows "\<exists>p. Platform_init new_toolchain toolchain_arg = Inr p"
  using assms
  unfolding Platform_init_def Xilinx7SeriesPlatform_init_def Let_def
  by simp

lemma Platform_init_raises:
  assumes "new_toolchain (case toolchain_arg of None \<Rightarrow> ''vivado'' | Some t \<Rightarrow> t) = Inl e"
  shows "Platform_init new_toolchain toolchain_arg = Inl e"
  using assms
  unfolding Platform_init_def Xilinx7SeriesPlatform_init_def Let_def
  by simp

lemma Platform_init_plain:
  "Platform_init plain_toolchain toolchain_arg =
     Inr (projr (Platform_init plain_toolchain toolchain_arg))"
  unfolding Platform_init_def Xilinx7SeriesPlatform_init_def Let_def plain_toolchain_def
  by simp

text \<open>
  Claim C5: for every construction, with any toolchain name (given or omitted), the device
  identifier of the resulting platform is exactly \<^verbatim>\<open>xc7a100t-fgg484-2\<close>.
\<close>

theorem Platform_init_device:
  assumes "Platform_init new_toolchain toolchain_arg = Inr p"
  shows "device p = ''xc7a100t-fgg484-2''"
  using assms
  unfolding Platform_init_def Xilinx7SeriesPlatform_init_def Let_def
  by (auto split: sum.splits)

theorem Platform_init_device_witness:
  "device (projr (Platform_init plain_toolchain (Some ''ise''))) = ''xc7a100t-fgg484-2''"
  by (rule Platform_init_device [OF Platform_init_plain])

text \<open>
  Claim C1, as the code has it: for every construction, the list \<open>bitstream_commands\<close> of
  the resulting platform has exactly the 5 entries below, in this order (SPI bus width 4,
  configuration rate 16, compression on, CFGBVS VCCO, configuration voltage 3.3), and the
  list of post-build commands (\<open>additional_commands\<close>) has exactly the 8 entries below, in
  this order: the six steps of the specification, of which the fourth and the sixth are two
  commands each (\<^verbatim>\<open>write_bitstream\<close>, then \<^verbatim>\<open>write_cfgmem\<close>).
\<close>

theorem Platform_init_commands:
  assumes "Platform_init new_toolchain toolchain_arg = Inr p"
  shows \<open>bitstream_commands (toolchain p) = [
            ''set_property BITSTREAM.CONFIG.SPI_BUSWIDTH 4 [current_design]'',
            ''set_property BITSTREAM.CONFIG.CONFIGRATE 16 [current_design]'',
            ''set_property BITSTREAM.GENERAL.COMPRESS TRUE [current_design]'',
            ''set_property CFGBVS VCCO [current_design]'',
            ''set_property CONFIG_VOLTAGE 3.3 [current_design]'']
         \<and> length (bitstream_commands (toolchain p)) = 5
         \<and> additional_commands (toolchain p) = [
            ''write_cfgmem -force -format bin -interface spix4 -size 16 -loadbit "up 0x0 {build_name}.bit" -file {build_name}.bin'',
            ''set_property BITSTREAM.CONFIG.TIMER_CFG 0x0001fbd0 [current_design]'',
            ''set_property BITSTREAM.CONFIG.CONFIGFALLBACK Enable [current_design]'',
            ''write_bitstream -force {build_name}_operational.bit '',
            ''write_cfgmem -force -format bin -interface spix4 -size 16 -loadbit "up 0x0 {build_name}_operational.bit" -file {build_name}_operational.bin'',
            ''set_property BITSTREAM.CONFIG.NEXT_CONFIG_ADDR 0x00400000 [current_design]'',
            ''write_bitstream -force {build_name}_fallback.bit '',
            ''write_cfgmem -force -format bin -interface spix4 -size 16 -loadbit "up 0x0 {build_name}_fallback.bit" -file {build_name}_fallback.bin'']
         \<and> length (additional_commands (toolchain p)) = 8\<close>
  using assms
  unfolding Platform_init_def Xilinx7SeriesPlatform_init_def Let_def
  by (auto split: sum.splits)

theorem Platform_init_commands_witness:
  "length (bitstream_commands (toolchain (projr (Platform_init plain_toolchain None)))) = 5
   \<and> length (additional_commands (toolchain (projr (Platform_init plain_toolchain None)))) = 8"
  using Platform_init_commands [OF Platform_init_plain, of None]
  by simp

text \<open>
  Claim C1 as stated asks for exactly 6 post-build entries. The platform built for the
  toolchain \<^verbatim>\<open>vivado\<close> has 8.
\<close>

theorem post_build_six_entries_counterexample:
  "\<not> isl (Platform_init plain_toolchain (Some ''vivado''))
   \<and> length (additional_commands (toolchain (projr (Platform_init plain_toolchain
        (Some ''vivado''))))) \<noteq> 6"
  unfolding Platform_init_def Xilinx7SeriesPlatform_init_def Let_def plain_toolchain_def
  by simp

text \<open>
  Claim C10: the toolchain name does not reach the pin table, the device identifier, the
  default clock name and period, or the two command lists. Any two constructions, whatever
  their toolchain names, agree on all of them.
\<close>

theorem Platform_init_noninterference:
  assumes "Platform_init new_toolchain toolchain_arg1 = Inr p1"
    and "Platform_init new_toolchain toolchain_arg2 = Inr p2"
  shows "io p1 = io p2
         \<and> device p1 = device p2
         \<and> self_default_clk_name p1 = self_default_clk_name p2
         \<and> self_default_clk_period p1 = self_default_clk_period p2
         \<and> bitstream_commands (toolchain p1) = bitstream_commands (toolchain p2)
         \<and> additional_commands (toolchain p1) = additional_commands (toolchain p2)"
  using assms
  unfolding Platform_init_def Xilinx7SeriesPlatform_init_def Let_def
    self_default_clk_name_def self_default_clk_period_def
  by (auto split: sum.splits)

theorem Platform_init_noninterference_witness:
  "io (projr (Platform_init plain_toolchain (Some ''vivado'')))
     = io (projr (Platform_init plain_toolchain (Some ''symbiflow'')))
   \<and> bitstream_commands (toolchain (projr (Platform_init plain_toolchain (Some ''vivado''))))
     = bitstream_commands (toolchain (projr (Platform_init plain_toolchain (Some ''symbiflow''))))
   \<and> additional_commands (toolchain (projr (Platform_init plain_toolchain (Some ''vivado''))))
     = additional_commands (toolchain (projr (Platform_init plain_toolchain (Some ''symbiflow''))))"
  using Platform_init_noninterference [OF Platform_init_plain Platform_init_plain,
      of "Some ''vivado''" "Some ''symbiflow''"]
  by simp

subsection \<open>The default clock\<close>

text \<open>
  Claim C6: the default clock name is \<^verbatim>\<open>clk200\<close>, the default clock period
  \<^verbatim>\<open>1e9/200e6\<close> is exactly 5 (nanoseconds), and the pin table has an entry of that name.
\<close>

theorem default_clk_in_table:
  "default_clk_name = ''clk200''
   \<and> default_clk_period = 5
   \<and> default_clk_name \<in> set (map res_name io_table)"
proof -
  have "default_clk_period = 5"
    by (simp add: default_clk_period_def)
  moreover have "default_clk_name \<in> set (map res_name io_table)"
    by code_simp
  ultimately show ?thesis
    by (simp add: default_clk_name_def)
qed

subsection \<open>The pin table\<close>

text \<open>
  Claim C7: no two entries of the pin table with distinct (name, index) keys bind the same
  physical pin; exactly two entries carry the key (\<^verbatim>\<open>sma\<close>, 2), the last two of the table,
  and their pins are disjoint; no entry carries the key (\<^verbatim>\<open>sma\<close>, 3).
\<close>

theorem io_table_pins_disjoint:
  "(\<forall>r \<in> set io_table. \<forall>r' \<in> set io_table.
      res_key r \<noteq> res_key r' \<longrightarrow> set (res_pins r) \<inter> set (res_pins r') = {})
   \<and> length (filter (\<lambda>r. res_key r = (''sma'', 2)) io_table) = 2
   \<and> filter (\<lambda>r. res_key r = (''sma'', 2)) io_table = [io_table ! 22, io_table ! 23]
   \<and> set (res_pins (io_table ! 22)) \<inter> set (res_pins (io_table ! 23)) = {}
   \<and> (''sma'', 3) \<notin> set (map res_key io_table)"
  by code_simp

theorem io_table_pins_disjoint_witness:
  "io_table ! 20 \<in> set io_table \<and> io_table ! 22 \<in> set io_table
   \<and> res_key (io_table ! 20) \<noteq> res_key (io_table ! 22)
   \<and> set (res_pins (io_table ! 20)) \<inter> set (res_pins (io_table ! 22)) = {}"
proof -
  have len: "length io_table = 24"
    by (simp add: io_table_def)
  have m20: "io_table ! 20 \<in> set io_table" and m22: "io_table ! 22 \<in> set io_table"
    using len by simp_all
  have k: "res_key (io_table ! 20) \<noteq> res_key (io_table ! 22)"
    by code_simp
  from io_table_pins_disjoint m20 m22 k
  have "set (res_pins (io_table ! 20)) \<inter> set (res_pins (io_table ! 22)) = {}"
    by blast
  with m20 m22 k show ?thesis
    by simp
qed

subsection \<open>Programmer selection\<close>

text \<open>
  Claim C4: the name \<^verbatim>\<open>openocd\<close> gives a handle with the configuration file
  \<^verbatim>\<open>openocd_xc7_ft232.cfg\<close> and the boundary-scan bitstream \<^verbatim>\<open>bscan_spi_xc7a200t.bit\<close>;
  the name \<^verbatim>\<open>vivado\<close> gives a handle with the flash part
  \<^verbatim>\<open>s25fl256sxxxxxx0-spi-x1_x2_x4\<close>.
\<close>

theorem create_programmer_handles:
  "create_programmer (Some ''openocd'')
     = Inr (Some (OpenOCD ''openocd_xc7_ft232.cfg'' ''bscan_spi_xc7a200t.bit''))
   \<and> create_programmer (Some ''vivado'')
     = Inr (Some (VivadoProgrammer ''s25fl256sxxxxxx0-spi-x1_x2_x4''))"
  by (simp add: create_programmer_def)

text \<open>
  Claim C9: with the name omitted, programmer selection is that of \<^verbatim>\<open>openocd\<close> and
  returns the OpenOCD handle; with the toolchain omitted, construction is that of
  \<^verbatim>\<open>vivado\<close>. The two defaults differ: an omitted programmer name does not select what
  the name \<^verbatim>\<open>vivado\<close> selects.
\<close>

theorem default_arguments:
  "create_programmer None = create_programmer (Some ''openocd'')
   \<and> create_programmer None
     = Inr (Some (OpenOCD ''openocd_xc7_ft232.cfg'' ''bscan_spi_xc7a200t.bit''))
   \<and> Platform_init new_toolchain None = Platform_init new_toolchain (Some ''vivado'')
   \<and> create_programmer None \<noteq> create_programmer (Some ''vivado'')"
  by (simp add: create_programmer_def Platform_init_def)

text \<open>
  Claim C2, as the code has it: for every name other than \<^verbatim>\<open>openocd\<close> and \<^verbatim>\<open>vivado\<close>,
  programmer selection raises nothing and returns \<^verbatim>\<open>None\<close>: no handle, and no fallback to
  a default backend.
\<close>

theorem create_programmer_other_name:
  assumes "name \<notin> {''openocd'', ''vivado''}"
  shows "create_programmer (Some name) = Inr None"
  using assms by (simp add: create_programmer_def)

theorem create_programmer_other_name_witness:
  "''jtag'' \<notin> {''openocd'', ''vivado''} \<and> create_programmer (Some ''jtag'') = Inr None"
proof -
  have h: "''jtag'' \<notin> {''openocd'', ''vivado''}"
    by simp
  show ?thesis
    using h create_programmer_other_name [OF h] by simp
qed

text \<open>
  Claim C2 as stated asks for a failure of kind \<open>UnsupportedProgrammer\<close>. The name
  \<^verbatim>\<open>bogus\<close> is outside the two names, and selection returns \<^verbatim>\<open>None\<close> for it without
  failing.
\<close>

theorem create_programmer_bogus_counterexample:
  "''bogus'' \<notin> {''openocd'', ''vivado''}
   \<and> create_programmer (Some ''bogus'') = Inr None
   \<and> create_programmer (Some ''bogus'') \<noteq> Inl UnsupportedProgrammer"
  by (simp add: create_programmer_def)

subsection \<open>Finalisation\<close>

text \<open>
  Claim C8: when the base finalisation has run and the loose lookup of \<^verbatim>\<open>clk200\<close> on its
  result finds a clock, finalisation returns the platform that the base finalisation left,
  with exactly one timing constraint appended: a period bound of 5 ns on that clock. The
  resulting constraints include that bound.
\<close>

theorem do_finalize_adds_period_bound:
  assumes "base_do_finalize self fragment = Inr self1"
    and "lookup_request self1 ''clk200'' True = Inr clk"
  shows "do_finalize base_do_finalize lookup_request add_period_constraint self fragment
           = Inr (self1\<lparr>period_constraints := period_constraints self1 @ [(clk, 5)]\<rparr>)
         \<and> (\<exists>self2. do_finalize base_do_finalize lookup_request add_period_constraint
                      self fragment = Inr self2
                \<and> (clk, 5) \<in> set (period_constraints self2)
                \<and> length (period_constraints self2) = Suc (length (period_constraints self1)))"
  using assms by (simp add: do_finalize_def add_period_constraint_def)

theorem do_finalize_adds_period_bound_witness:
  "do_finalize sample_base_do_finalize sample_lookup_request add_period_constraint
     \<lparr>period_constraints = [(''clk125_p'', 8)]\<rparr> ()
   = Inr \<lparr>period_constraints = [(''clk125_p'', 8), (''clk200_p'', 5)]\<rparr>"
proof -
  have b: "sample_base_do_finalize \<lparr>period_constraints = [(''clk125_p'', 8)]\<rparr> ()
             = Inr \<lparr>period_constraints = [(''clk125_p'', 8)]\<rparr>"
    by (simp add: sample_base_do_finalize_def)
  have l: "sample_lookup_request \<lparr>period_constraints = [(''clk125_p'', 8)]\<rparr> ''clk200'' True
             = Inr ''clk200_p''"
    by (simp add: sample_lookup_request_def)
  show ?thesis
    using do_finalize_adds_period_bound
        [where base_do_finalize = sample_base_do_finalize
           and lookup_request = sample_lookup_request, OF b l]
    by simp
qed

end
